theory Spec2Isabelle
  imports Complex_Main "HOL-Library.Multiset"
begin

section \<open>The relational store\<close>

text \<open>
  The tables are lists of rows; a nullable column is an \<open>option\<close>. The columns kept are
  the ones the modelled statements read or write. \<open>DECIMAL\<close> values are exact rationals.
  Timestamps are integers on one common scale.
\<close>

datatype db_error =
    ConnectionError
  | StringDataRightTruncation
  | UniqueViolation
  | SequenceExhausted
  | NumericValueOutOfRange
  | SyntaxError

record user_row =
  u_id :: int
  email :: "string option"
  stripe_customer_id :: "string option"
  subscription_id :: "string option"
  plan_id :: "string option"
  status :: "string option"
  created_at :: "int option"
  updated_at :: "int option"

record industry_row =
  i_naics_code :: "string option"
  industry_title :: "string option"

record company_row =
  c_id :: int
  c_name :: string
  ticker_symbol :: "string option"
  c_naics_code :: "string option"
  market_cap :: "rat option"

record financial_metric_row =
  fm_company_id :: "int option"
  metric_type :: "string option"
  metric_value :: "rat option"

record news_sentiment_row =
  ns_company_id :: "int option"
  sentiment_score :: "rat option"
  published_date :: "int option"

text \<open>
  \<open>reachable\<close> says whether the pool can run a statement at all; \<open>users_id_seq\<close> is the
  last value handed out by the sequence behind \<open>users.id SERIAL\<close>.
\<close>

record database =
  reachable :: bool
  users_tbl :: "user_row list"
  users_id_seq :: int
  industries_tbl :: "industry_row list"
  companies_tbl :: "company_row list"
  financial_metrics_tbl :: "financial_metric_row list"
  news_sentiment_tbl :: "news_sentiment_row list"

definition pool_query :: "(database \<Rightarrow> db_error + 'a) \<Rightarrow> database \<Rightarrow> db_error + 'a" where
  "pool_query stmt db = (if reachable db then stmt db else Inl ConnectionError)"

subsection \<open>Statements on \<open>users\<close>\<close>

text \<open>
  Storing into a \<open>VARCHAR(n)\<close> column: a longer value is an error unless the excess is
  all spaces, which are cut off.
\<close>

definition varchar :: "nat \<Rightarrow> string option \<Rightarrow> db_error + string option" where
  "varchar n v =
     (case v of
        None \<Rightarrow> Inr None
      | Some s \<Rightarrow>
          if length s \<le> n then Inr (Some s)
          else if list_all (\<lambda>ch. ch = CHR '' '') (drop n s) then Inr (Some (take n s))
          else Inl StringDataRightTruncation)"

text \<open>
  \<^verbatim>\<open>INSERT INTO users (stripe_customer_id, subscription_id, plan_id, status)
  VALUES ($1, $2, $3, $4) ON CONFLICT (stripe_customer_id) DO UPDATE
  SET subscription_id = $2, plan_id = $3, status = $4\<close>

  The other columns take their defaults: \<open>id\<close> the next sequence value, \<open>email\<close> null, the
  two timestamps the current time. Only a clash on \<open>stripe_customer_id\<close> turns the insert
  into an update; a clash on the primary key is an error. A null never clashes.
\<close>

definition users_upsert ::
  "int \<Rightarrow> string option \<Rightarrow> string option \<Rightarrow> string option \<Rightarrow> string option \<Rightarrow>
   database \<Rightarrow> db_error + database" where
  "users_upsert now p1 p2 p3 p4 db =
     (case varchar 255 p1 of Inl e \<Rightarrow> Inl e | Inr cust \<Rightarrow>
      case varchar 255 p2 of Inl e \<Rightarrow> Inl e | Inr sub \<Rightarrow>
      case varchar 50 p3 of Inl e \<Rightarrow> Inl e | Inr plan \<Rightarrow>
      case varchar 50 p4 of Inl e \<Rightarrow> Inl e | Inr st \<Rightarrow>
        let new_id = users_id_seq db + 1 in
        if new_id > 2147483647 then Inl SequenceExhausted
        else if cust \<noteq> None \<and> list_ex (\<lambda>u. stripe_customer_id u = cust) (users_tbl db) then
          Inr (db\<lparr>users_tbl :=
                    map (\<lambda>u. if stripe_customer_id u = cust
                              then u\<lparr>subscription_id := sub, plan_id := plan, status := st\<rparr>
                              else u) (users_tbl db),
                  users_id_seq := new_id\<rparr>)
        else if list_ex (\<lambda>u. u_id u = new_id) (users_tbl db) then Inl UniqueViolation
        else
          Inr (db\<lparr>users_tbl := users_tbl db @
                    [\<lparr>u_id = new_id, email = None, stripe_customer_id = cust,
                      subscription_id = sub, plan_id = plan, status = st,
                      created_at = Some now, updated_at = Some now\<rparr>],
                  users_id_seq := new_id\<rparr>))"

text \<open>\<^verbatim>\<open>UPDATE users SET status = $1 WHERE subscription_id = $2\<close>\<close>

definition users_set_status :: "string option \<Rightarrow> string option \<Rightarrow> database \<Rightarrow> db_error + database" where
  "users_set_status p1 p2 db =
     (case varchar 50 p1 of Inl e \<Rightarrow> Inl e | Inr st \<Rightarrow>
        Inr (db\<lparr>users_tbl :=
                  map (\<lambda>u. if p2 \<noteq> None \<and> subscription_id u = p2 then u\<lparr>status := st\<rparr> else u)
                    (users_tbl db)\<rparr>))"

section \<open>The webhook endpoint\<close>

text \<open>
  An event as \<open>stripe.webhooks.constructEvent\<close> returns it: its type and the object under
  \<open>data.object\<close>, of which the handlers read \<open>id\<close>, \<open>customer\<close>, \<open>subscription\<close> and
  \<open>metadata\<close>. \<open>None\<close> is a field that is null or absent.
\<close>

record stripe_object =
  obj_id :: "string option"
  customer :: "string option"
  subscription :: "string option"
  metadata :: "(string \<rightharpoonup> string) option"

record stripe_event =
  event_type :: string
  data_object :: stripe_object

datatype failure = TypeError | DbError db_error

datatype log_entry = Log string | LogError string failure

record 'b response =
  status_code :: nat
  body :: 'b

datatype webhook_body = SendText string | JsonReceived bool

text \<open>
  \<open>handleSuccessfulPayment\<close>: reading \<open>metadata.planId\<close> of a null \<open>metadata\<close> throws inside
  the \<open>try\<close>; a missing \<open>planId\<close> is passed as null. Whatever is thrown is logged and
  swallowed. The result is the log and the database once the statement has settled.
\<close>

definition handleSuccessfulPayment ::
  "int \<Rightarrow> stripe_object \<Rightarrow> database \<Rightarrow> log_entry list \<times> database" where
  "handleSuccessfulPayment now session db =
     (case metadata session of
        None \<Rightarrow> ([LogError ''Error saving user subscription:'' TypeError], db)
      | Some md \<Rightarrow>
          (case pool_query
                  (users_upsert now (customer session) (subscription session) (md ''planId'')
                     (Some ''active'')) db of
             Inl e \<Rightarrow> ([LogError ''Error saving user subscription:'' (DbError e)], db)
           | Inr db' \<Rightarrow> ([Log ''User subscription saved successfully''], db')))"

definition handleSubscriptionCancellation ::
  "stripe_object \<Rightarrow> database \<Rightarrow> log_entry list \<times> database" where
  "handleSubscriptionCancellation subscr db =
     (case pool_query (users_set_status (Some ''cancelled'') (obj_id subscr)) db of
        Inl e \<Rightarrow> ([LogError ''Error handling subscription cancellation:'' (DbError e)], db)
      | Inr db' \<Rightarrow> ([Log ''Subscription cancellation handled''], db'))"

text \<open>
  The route \<open>POST /api/stripe-webhook\<close>. \<open>constructEvent\<close> is the payment library's
  verification, taken as a parameter: given the request body as the handler holds it, the
  \<open>stripe-signature\<close> header and the signing secret, it either throws (\<open>Inl\<close> the message)
  or returns the event. The result is the response, the log and the database.
\<close>

record 'p webhook_request =
  req_body :: 'p
  stripe_signature :: "string option"

definition stripe_webhook ::
  "('p \<Rightarrow> string option \<Rightarrow> string option \<Rightarrow> string + stripe_event) \<Rightarrow> string option \<Rightarrow> int \<Rightarrow>
   'p webhook_request \<Rightarrow> database \<Rightarrow> webhook_body response \<times> log_entry list \<times> database" where
  "stripe_webhook constructEvent secret now req db =
     (case constructEvent (req_body req) (stripe_signature req) secret of
        Inl msg \<Rightarrow>
          (\<lparr>status_code = 400, body = SendText (''Webhook Error: '' @ msg)\<rparr>,
           [Log (''Webhook signature verification failed. '' @ msg)], db)
      | Inr event \<Rightarrow>
          (let (lg, db') =
                 (if event_type event = ''checkout.session.completed''
                  then handleSuccessfulPayment now (data_object event) db
                  else if event_type event = ''customer.subscription.deleted''
                  then handleSubscriptionCancellation (data_object event) db
                  else ([Log (''Unhandled event type '' @ event_type event)], db))
           in (\<lparr>status_code = 200, body = JsonReceived True\<rparr>, lg, db')))"

section \<open>JavaScript numbers and values\<close>

text \<open>
  A JavaScript number is an exact rational, an infinity or NaN: the rounding of IEEE
  doubles and the negative zero are not modelled. A field of a row object holds a number,
  \<open>null\<close> or \<open>undefined\<close>; the \<open>name\<close> of a row is a string.
\<close>

datatype jsnum = Fin rat | PosInf | NegInf | NaN

datatype jsval = JUndefined | JNull | JNum jsnum

fun ToNumber :: "jsval \<Rightarrow> jsnum" where
  "ToNumber JUndefined = NaN"
| "ToNumber JNull = Fin 0"
| "ToNumber (JNum n) = n"

fun js_neg :: "jsnum \<Rightarrow> jsnum" where
  "js_neg (Fin x) = Fin (- x)"
| "js_neg PosInf = NegInf"
| "js_neg NegInf = PosInf"
| "js_neg NaN = NaN"

fun js_add :: "jsnum \<Rightarrow> jsnum \<Rightarrow> jsnum" where
  "js_add NaN b = NaN"
| "js_add a NaN = NaN"
| "js_add (Fin x) (Fin y) = Fin (x + y)"
| "js_add PosInf NegInf = NaN"
| "js_add NegInf PosInf = NaN"
| "js_add PosInf b = PosInf"
| "js_add NegInf b = NegInf"
| "js_add (Fin x) b = b"

definition js_sub :: "jsnum \<Rightarrow> jsnum \<Rightarrow> jsnum" where
  "js_sub a b = js_add a (js_neg b)"

fun js_div :: "jsnum \<Rightarrow> jsnum \<Rightarrow> jsnum" where
  "js_div NaN b = NaN"
| "js_div a NaN = NaN"
| "js_div (Fin x) (Fin y) =
     (if y = 0 then (if x = 0 then NaN else if 0 < x then PosInf else NegInf) else Fin (x / y))"
| "js_div (Fin x) b = Fin 0"
| "js_div PosInf (Fin y) = (if 0 \<le> y then PosInf else NegInf)"
| "js_div NegInf (Fin y) = (if 0 \<le> y then NegInf else PosInf)"
| "js_div a b = NaN"

text \<open>\<open>a > b\<close> on numbers: false as soon as one side is NaN.\<close>

fun js_gt :: "jsnum \<Rightarrow> jsnum \<Rightarrow> bool" where
  "js_gt NaN b = False"
| "js_gt a NaN = False"
| "js_gt (Fin x) (Fin y) = (y < x)"
| "js_gt PosInf PosInf = False"
| "js_gt PosInf b = True"
| "js_gt a PosInf = False"
| "js_gt NegInf b = False"
| "js_gt a NegInf = True"

text \<open>\<open>v || 0\<close>: the falsy values \<open>undefined\<close>, \<open>null\<close>, \<open>0\<close> and NaN give \<open>0\<close>.\<close>

fun or_zero :: "jsval \<Rightarrow> jsnum" where
  "or_zero (JNum NaN) = Fin 0"
| "or_zero (JNum n) = n"
| "or_zero v = Fin 0"

subsection \<open>Printing numbers\<close>

definition digit :: "nat \<Rightarrow> char" where
  "digit d = ''0123456789'' ! d"

fun digits :: "nat \<Rightarrow> string" where
  "digits n = (if n < 10 then [digit n] else digits (n div 10) @ [digit (n mod 10)])"

declare digits.simps [simp del]

text \<open>Rounding to the nearest integer, the larger one on a tie, for \<open>x \<ge> 0\<close>.\<close>

definition round_half_up :: "rat \<Rightarrow> nat" where
  "round_half_up x = nat \<lfloor>x + 1 / 2\<rfloor>"

fun strip_zeros :: "string \<Rightarrow> string" where
  "strip_zeros [] = []"
| "strip_zeros (c # cs) =
     (case strip_zeros cs of
        [] \<Rightarrow> (if c = CHR ''0'' then [] else [c])
      | r # rs \<Rightarrow> c # r # rs)"

text \<open>
  \<open>Number::toString\<close> for \<open>x \<ge> 10\<^sup>2\<^sup>1\<close>, the only range \<open>toFixed\<close> sends there: the
  exponent form \<open>d.ddde+N\<close>. The digits are those of the exact value rounded to 17
  significant digits, trailing zeros dropped.
\<close>

definition exponent_form :: "rat \<Rightarrow> string" where
  "exponent_form x =
     (let n = length (digits (nat \<lfloor>x\<rfloor>));
          s = round_half_up (x / 10 ^ (n - 17));
          (s', n') = (if s = 10 ^ 17 then (10 ^ 16, n + 1) else (s, n));
          m = strip_zeros (digits s')
      in (if length m \<le> 1 then m else hd m # CHR ''.'' # tl m) @ ''e+'' @ digits (n' - 1))"

text \<open>
  \<open>Number.prototype.toFixed(1)\<close>: with \<open>n\<close> the integer nearest to \<open>10 x\<close> (the larger on a
  tie), the digits of \<open>n\<close>, padded on the left to two, with a point before the last one;
  a negative \<open>x\<close> is printed as its opposite after a minus sign.
\<close>

definition toFixed1_nonneg :: "rat \<Rightarrow> string" where
  "toFixed1_nonneg x =
     (if 10 ^ 21 \<le> x then exponent_form x
      else
        (let n = round_half_up (x * 10);
             m = digits n;
             m' = (if length m \<le> 1 then replicate (2 - length m) CHR ''0'' @ m else m);
             k = length m'
         in take (k - 1) m' @ ''.'' @ drop (k - 1) m'))"

fun toFixed1 :: "jsnum \<Rightarrow> string" where
  "toFixed1 NaN = ''NaN''"
| "toFixed1 PosInf = ''Infinity''"
| "toFixed1 NegInf = ''-Infinity''"
| "toFixed1 (Fin x) = (if x < 0 then ''-'' @ toFixed1_nonneg (- x) else toFixed1_nonneg x)"

subsection \<open>Sorting an array\<close>

text \<open>
  \<open>Array.prototype.sort\<close> with a comparison function: the sort is stable, \<open>a\<close> goes after
  \<open>b\<close> exactly when \<open>cmp(a, b) > 0\<close>, and a NaN from \<open>cmp\<close> counts as \<open>0\<close>. For a
  comparison function that is a consistent ordering every stable sort returns the same
  array; insertion is the one written here.
\<close>

fun sort_insert :: "('a \<Rightarrow> 'a \<Rightarrow> jsnum) \<Rightarrow> 'a \<Rightarrow> 'a list \<Rightarrow> 'a list" where
  "sort_insert cmp x [] = [x]"
| "sort_insert cmp x (y # ys) =
     (if js_gt (cmp x y) (Fin 0) then y # sort_insert cmp x ys else x # y # ys)"

fun array_sort :: "('a \<Rightarrow> 'a \<Rightarrow> jsnum) \<Rightarrow> 'a list \<Rightarrow> 'a list" where
  "array_sort cmp [] = []"
| "array_sort cmp (x # xs) = sort_insert cmp x (array_sort cmp xs)"

section \<open>The comparison insight generator\<close>

record js_company =
  name :: string
  js_market_cap :: jsval
  js_growth_rate :: jsval
  js_avg_sentiment :: jsval

definition by_market_cap :: "js_company \<Rightarrow> js_company \<Rightarrow> jsnum" where
  "by_market_cap a b = js_sub (ToNumber (js_market_cap b)) (ToNumber (js_market_cap a))"

definition by_growth_rate :: "js_company \<Rightarrow> js_company \<Rightarrow> jsnum" where
  "by_growth_rate a b = js_sub (ToNumber (js_growth_rate b)) (ToNumber (js_growth_rate a))"

text \<open>\<open>growth_rate?.toFixed(1)\<close> inside a template literal.\<close>

fun optional_toFixed1 :: "jsval \<Rightarrow> string" where
  "optional_toFixed1 JUndefined = ''undefined''"
| "optional_toFixed1 JNull = ''undefined''"
| "optional_toFixed1 (JNum n) = toFixed1 n"

definition avgSentiment :: "js_company list \<Rightarrow> jsnum" where
  "avgSentiment companies =
     js_div (foldl (\<lambda>sum c. js_add sum (or_zero (js_avg_sentiment c))) (Fin 0) companies)
       (Fin (of_nat (length companies)))"

definition sentiment_word :: "jsnum \<Rightarrow> string" where
  "sentiment_word avg =
     (if js_gt avg (Fin (6 / 10)) then ''positive''
      else if js_gt avg (Fin (4 / 10)) then ''neutral'' else ''negative'')"

text \<open>
  \<open>generateComparisonInsights\<close>: reading \<open>.name\<close> of the first element of an empty sorted
  array throws a TypeError.
\<close>

definition generateComparisonInsights :: "js_company list \<Rightarrow> failure + string list" where
  "generateComparisonInsights companies =
     (let sortedByMarketCap = array_sort by_market_cap companies;
          sortedByGrowth = array_sort by_growth_rate companies
      in case sortedByMarketCap of
           [] \<Rightarrow> Inl TypeError
         | by_cap0 # _ \<Rightarrow>
             (case sortedByGrowth of
                [] \<Rightarrow> Inl TypeError
              | by_growth0 # _ \<Rightarrow>
                  Inr [name by_cap0 @ '' leads in market capitalization with $'' @
                         toFixed1 (js_div (ToNumber (js_market_cap by_cap0)) (Fin 1000000000)) @ ''B'',
                       name by_growth0 @ '' shows highest growth rate at '' @
                         optional_toFixed1 (js_growth_rate by_growth0) @ ''%'',
                       ''Overall market sentiment is '' @
                         sentiment_word (avgSentiment companies)]))"

section \<open>Queries\<close>

text \<open>
  \<open>A LEFT JOIN B ON cond\<close>: every row of \<open>A\<close> with each row of \<open>B\<close> that satisfies the
  condition, or once with nulls when none does. A comparison with a null is not
  satisfied.
\<close>

definition nullable :: "'b list \<Rightarrow> 'b option list" where
  "nullable ms = (case ms of [] \<Rightarrow> [None] | m # ms' \<Rightarrow> map Some (m # ms'))"

definition left_join :: "('a \<Rightarrow> 'b \<Rightarrow> bool) \<Rightarrow> 'a list \<Rightarrow> 'b list \<Rightarrow> ('a \<times> 'b option) list" where
  "left_join on xs ys = concat (map (\<lambda>x. map (Pair x) (nullable (filter (on x) ys))) xs)"

text \<open>
  \<open>GROUP BY\<close>: the rows with equal keys, nulls being equal to each other. SQL leaves the
  order of the groups open; here a group stands where its first row stood.
\<close>

fun group_by :: "('r \<Rightarrow> 'k) \<Rightarrow> 'r list \<Rightarrow> ('k \<times> 'r list) list" where
  "group_by key [] = []"
| "group_by key (r # rs) =
     (key r, r # filter (\<lambda>x. key x = key r) rs) # group_by key (filter (\<lambda>x. key x \<noteq> key r) rs)"

text \<open>
  \<open>COUNT(e)\<close> and \<open>AVG(e)\<close> skip nulls; \<open>AVG\<close> over no value is null. The average is the
  exact quotient.
\<close>

fun non_null :: "'a option list \<Rightarrow> 'a list" where
  "non_null [] = []"
| "non_null (None # xs) = non_null xs"
| "non_null (Some v # xs) = v # non_null xs"

definition average :: "rat list \<Rightarrow> rat option" where
  "average vs = (if vs = [] then None else Some (sum_list vs / of_nat (length vs)))"

definition sql_count :: "'a option list \<Rightarrow> nat" where
  "sql_count xs = length (non_null xs)"

definition sql_avg :: "rat option list \<Rightarrow> rat option" where
  "sql_avg xs = average (non_null xs)"

subsection \<open>Industry analysis\<close>

text \<open>
  \<^verbatim>\<open>SELECT i.industry_title, COUNT(c.id) as company_count,
         AVG(c.market_cap) as avg_market_cap, AVG(fm.metric_value) as avg_growth_rate
  FROM industries i
  LEFT JOIN companies c ON i.naics_code = c.naics_code
  LEFT JOIN financial_metrics fm ON c.id = fm.company_id AND fm.metric_type = 'revenue_growth'
  WHERE i.naics_code = $1
  GROUP BY i.industry_title\<close>
\<close>

record analysis_row =
  a_industry_title :: "string option"
  company_count :: nat
  avg_market_cap :: "rat option"
  avg_growth_rate :: "rat option"

definition industry_join ::
  "database \<Rightarrow> ((industry_row \<times> company_row option) \<times> financial_metric_row option) list" where
  "industry_join db =
     left_join
       (\<lambda>(i, c) fm. case c of
                       None \<Rightarrow> False
                     | Some c' \<Rightarrow> fm_company_id fm = Some (c_id c') \<and>
                                 metric_type fm = Some ''revenue_growth'')
       (left_join (\<lambda>i c. i_naics_code i \<noteq> None \<and> i_naics_code i = c_naics_code c)
          (industries_tbl db) (companies_tbl db))
       (financial_metrics_tbl db)"

definition industry_analysis_query :: "string \<Rightarrow> database \<Rightarrow> db_error + analysis_row list" where
  "industry_analysis_query code db =
     Inr (map (\<lambda>(title, rows).
                 \<lparr>a_industry_title = title,
                  company_count = sql_count (map (\<lambda>((i, c), fm). map_option c_id c) rows),
                  avg_market_cap = sql_avg (map (\<lambda>((i, c), fm). Option.bind c market_cap) rows),
                  avg_growth_rate = sql_avg (map (\<lambda>((i, c), fm). Option.bind fm metric_value) rows)\<rparr>)
            (group_by (\<lambda>((i, c), fm). industry_title i)
               (filter (\<lambda>((i, c), fm). i_naics_code i = Some code) (industry_join db))))"

datatype analysis_body = AnalysisJson analysis_row | EmptyObject | AnalysisError string

text \<open>The route \<open>GET /api/industries/:code/analysis\<close>: \<open>res.json(result.rows[0] || {})\<close>.\<close>

definition api_industry_analysis :: "string \<Rightarrow> database \<Rightarrow> analysis_body response" where
  "api_industry_analysis code db =
     (case pool_query (industry_analysis_query code) db of
        Inl e \<Rightarrow> \<lparr>status_code = 500, body = AnalysisError ''Failed to fetch industry analysis''\<rparr>
      | Inr rows \<Rightarrow>
          \<lparr>status_code = 200,
           body = (case rows of [] \<Rightarrow> EmptyObject | r # _ \<Rightarrow> AnalysisJson r)\<rparr>)"

subsection \<open>Comparison\<close>

text \<open>
  \<^verbatim>\<open>SELECT c.id, c.name, c.ticker_symbol, c.market_cap,
    AVG(CASE WHEN fm.metric_type = 'revenue' THEN fm.metric_value END) as revenue,
    AVG(CASE WHEN fm.metric_type = 'revenue_growth' THEN fm.metric_value END) as growth_rate,
    AVG(ns.sentiment_score) as avg_sentiment
  FROM companies c
  LEFT JOIN financial_metrics fm ON c.id = fm.company_id
  LEFT JOIN news_sentiment ns ON c.id = ns.company_id
    AND ns.published_date > NOW() - INTERVAL '30 days'
  WHERE c.id IN ($1, ..., $n)
  GROUP BY c.id, c.name, c.ticker_symbol, c.market_cap\<close>

  \<open>cutoff\<close> is the value of \<open>NOW() - INTERVAL '30 days'\<close> when the statement runs. The ids
  are integers; one outside the range of \<open>BIGINT\<close> is an error, and so is an empty list.
\<close>

record compare_row =
  r_id :: int
  r_name :: string
  r_ticker_symbol :: "string option"
  r_market_cap :: "rat option"
  revenue :: "rat option"
  growth_rate :: "rat option"
  avg_sentiment :: "rat option"

definition case_metric :: "string \<Rightarrow> financial_metric_row option \<Rightarrow> rat option" where
  "case_metric t fm =
     (case fm of
        None \<Rightarrow> None
      | Some f \<Rightarrow> if metric_type f = Some t then metric_value f else None)"

definition recent :: "int \<Rightarrow> news_sentiment_row \<Rightarrow> bool" where
  "recent cutoff ns = (case published_date ns of None \<Rightarrow> False | Some d \<Rightarrow> cutoff < d)"

definition compare_join ::
  "int \<Rightarrow> database \<Rightarrow>
   ((company_row \<times> financial_metric_row option) \<times> news_sentiment_row option) list" where
  "compare_join cutoff db =
     left_join (\<lambda>(c, fm) ns. ns_company_id ns = Some (c_id c) \<and> recent cutoff ns)
       (left_join (\<lambda>c fm. fm_company_id fm = Some (c_id c))
          (companies_tbl db) (financial_metrics_tbl db))
       (news_sentiment_tbl db)"

definition compare_query :: "int \<Rightarrow> int list \<Rightarrow> database \<Rightarrow> db_error + compare_row list" where
  "compare_query cutoff ids db =
     (if ids = [] then Inl SyntaxError
      else if list_ex (\<lambda>i. i < - (2 ^ 63) \<or> 2 ^ 63 \<le> i) ids then Inl NumericValueOutOfRange
      else
        Inr (map (\<lambda>((i, n, t, m), rows).
                    \<lparr>r_id = i, r_name = n, r_ticker_symbol = t, r_market_cap = m,
                     revenue = sql_avg (map (\<lambda>((c, fm), ns). case_metric ''revenue'' fm) rows),
                     growth_rate =
                       sql_avg (map (\<lambda>((c, fm), ns). case_metric ''revenue_growth'' fm) rows),
                     avg_sentiment =
                       sql_avg (map (\<lambda>((c, fm), ns). Option.bind ns sentiment_score) rows)\<rparr>)
               (group_by (\<lambda>((c, fm), ns). (c_id c, c_name c, ticker_symbol c, market_cap c))
                  (filter (\<lambda>((c, fm), ns). c_id c \<in> set ids) (compare_join cutoff db)))))"

text \<open>
  The route \<open>POST /api/compare\<close>. \<open>companyIds\<close> is \<open>None\<close> when the body has none.
  \<open>row_object\<close> is the database driver's rendering of a result row as the JavaScript
  object that the generator reads.
\<close>

record compare_request =
  companyIds :: "int list option"

datatype compare_body = CompareJson "compare_row list" "string list" | CompareError string

definition api_compare ::
  "(compare_row \<Rightarrow> js_company) \<Rightarrow> int \<Rightarrow> compare_request \<Rightarrow> database \<Rightarrow> compare_body response" where
  "api_compare row_object cutoff req db =
     (case companyIds req of
        None \<Rightarrow>
          \<lparr>status_code = 400, body = CompareError ''At least 2 companies required for comparison''\<rparr>
      | Some ids \<Rightarrow>
          if length ids < 2 then
            \<lparr>status_code = 400, body = CompareError ''At least 2 companies required for comparison''\<rparr>
          else
            (case pool_query (compare_query cutoff ids) db of
               Inl e \<Rightarrow> \<lparr>status_code = 500, body = CompareError ''Failed to compare companies''\<rparr>
             | Inr rows \<Rightarrow>
                 (case generateComparisonInsights (map row_object rows) of
                    Inl e \<Rightarrow> \<lparr>status_code = 500, body = CompareError ''Failed to compare companies''\<rparr>
                  | Inr insights \<Rightarrow> \<lparr>status_code = 200, body = CompareJson rows insights\<rparr>)))"

text \<open>A driver that hands numeric columns over as JavaScript numbers, nulls as \<open>null\<close>.\<close>

definition numeric_value :: "rat option \<Rightarrow> jsval" where
  "numeric_value v = (case v of None \<Rightarrow> JNull | Some q \<Rightarrow> JNum (Fin q))"

definition numbers_row_object :: "compare_row \<Rightarrow> js_company" where
  "numbers_row_object r =
     \<lparr>name = r_name r, js_market_cap = numeric_value (r_market_cap r),
      js_growth_rate = numeric_value (growth_rate r),
      js_avg_sentiment = numeric_value (avg_sentiment r)\<rparr>"

section \<open>Vocabulary of the properties\<close>






text \<open>The number that a string of decimal digits denotes.\<close>

definition digit_value :: "char \<Rightarrow> nat" where
  "digit_value ch = length (takeWhile (\<lambda>c. c \<noteq> ch) ''0123456789'')"

definition decimal_value :: "string \<Rightarrow> nat" where
  "decimal_value s = foldl (\<lambda>a ch. 10 * a + digit_value ch) 0 s"





fun missing :: "jsval \<Rightarrow> bool" where
  "missing JUndefined = True"
| "missing JNull = True"
| "missing (JNum n) = False"






section \<open>Example data\<close>

definition alpha :: js_company where
  "alpha = \<lparr>name = ''Alpha'', js_market_cap = JNum (Fin 5000000000), js_growth_rate = JNull,
             js_avg_sentiment = JNum (Fin (7 / 10))\<rparr>"

definition beta :: js_company where
  "beta = \<lparr>name = ''Beta'', js_market_cap = JNum (Fin 2000000000),
            js_growth_rate = JNum (Fin (- 5 / 2)), js_avg_sentiment = JNull\<rparr>"

definition db0 :: database where
  "db0 = \<lparr>reachable = True, users_tbl = [], users_id_seq = 0, industries_tbl = [],
           companies_tbl = [], financial_metrics_tbl = [], news_sentiment_tbl = []\<rparr>"


text \<open>One industry with one company that has two \<open>revenue_growth\<close> rows.\<close>

definition db_software :: database where
  "db_software =
     db0\<lparr>industries_tbl := [\<lparr>i_naics_code = Some ''5112'', industry_title = Some ''Software''\<rparr>],
         companies_tbl :=
           [\<lparr>c_id = 1, c_name = ''Acme'', ticker_symbol = Some ''ACM'',
             c_naics_code = Some ''5112'', market_cap = Some 100\<rparr>],
         financial_metrics_tbl :=
           [\<lparr>fm_company_id = Some 1, metric_type = Some ''revenue_growth'', metric_value = Some 10\<rparr>,
            \<lparr>fm_company_id = Some 1, metric_type = Some ''revenue_growth'', metric_value = Some 20\<rparr>]\<rparr>"

text \<open>
  Two companies with metrics and news rows; the news row dated 10 is older than the
  cutoff 70 used with this database.
\<close>

definition db_compare :: database where
  "db_compare =
     db0\<lparr>companies_tbl :=
           [\<lparr>c_id = 1, c_name = ''Acme'', ticker_symbol = Some ''ACM'',
             c_naics_code = Some ''5112'', market_cap = Some 5000000000\<rparr>,
            \<lparr>c_id = 2, c_name = ''Bolt'', ticker_symbol = None,
             c_naics_code = Some ''5112'', market_cap = Some 2000000000\<rparr>],
         financial_metrics_tbl :=
           [\<lparr>fm_company_id = Some 1, metric_type = Some ''revenue'', metric_value = Some 100\<rparr>,
            \<lparr>fm_company_id = Some 2, metric_type = Some ''revenue'', metric_value = Some 50\<rparr>,
            \<lparr>fm_company_id = Some 1, metric_type = Some ''revenue'', metric_value = Some 300\<rparr>,
            \<lparr>fm_company_id = Some 1, metric_type = Some ''revenue_growth'', metric_value = Some 10\<rparr>],
         news_sentiment_tbl :=
           [\<lparr>ns_company_id = Some 1, sentiment_score = Some (8 / 10), published_date = Some 95\<rparr>,
            \<lparr>ns_company_id = Some 1, sentiment_score = Some (9 / 10), published_date = Some 10\<rparr>,
            \<lparr>ns_company_id = Some 1, sentiment_score = Some (4 / 10), published_date = Some 99\<rparr>]\<rparr>"


section \<open>Sorting, sums and printing\<close>




lemma mset_sort_insert: "mset (sort_insert cmp x ys) = add_mset x (mset ys)"
  by (induction ys) auto

lemma mset_array_sort: "mset (array_sort cmp xs) = mset xs"
  by (induction xs) (simp_all add: mset_sort_insert)

lemma length_array_sort: "length (array_sort cmp xs) = length xs"
  using mset_array_sort [of cmp xs] by (metis size_mset)











lemma array_sort_nonempty: "xs \<noteq> [] \<Longrightarrow> \<exists>t ts. array_sort cmp xs = t # ts"
  using length_array_sort [of cmp xs] by (cases "array_sort cmp xs") auto

lemma generate_nonempty:
  assumes "companies \<noteq> []"
  shows "generateComparisonInsights companies =
           Inr [name (hd (array_sort by_market_cap companies)) @
                  '' leads in market capitalization with $'' @
                  toFixed1 (js_div (ToNumber (js_market_cap (hd (array_sort by_market_cap companies))))
                     (Fin 1000000000)) @ ''B'',
                name (hd (array_sort by_growth_rate companies)) @
                  '' shows highest growth rate at '' @
                  optional_toFixed1 (js_growth_rate (hd (array_sort by_growth_rate companies))) @ ''%'',
                ''Overall market sentiment is '' @ sentiment_word (avgSentiment companies)]"
proof -
  obtain t ts where t: "array_sort by_market_cap companies = t # ts"
    using array_sort_nonempty [OF assms] by blast
  obtain g gs where g: "array_sort by_growth_rate companies = g # gs"
    using array_sort_nonempty [OF assms] by blast
  show ?thesis by (simp add: generateComparisonInsights_def t g)
qed

lemma generate_empty: "generateComparisonInsights [] = Inl TypeError"
  by (simp add: generateComparisonInsights_def)










section \<open>The users table\<close>















section \<open>Joins, groups and averages\<close>




lemma left_join_fst: "(x, y) \<in> set (left_join on xs ys) \<Longrightarrow> x \<in> set xs"
  by (auto simp: left_join_def)



lemma group_by_member:
  "(k, g) \<in> set (group_by key rs) \<Longrightarrow> g = filter (\<lambda>x. key x = k) rs \<and> k \<in> key ` set rs"
proof (induction key rs rule: group_by.induct)
  case (1 key)
  then show ?case by simp
next
  case (2 key r rs)
  from "2.prems" consider "k = key r" "g = r # filter (\<lambda>x. key x = key r) rs"
    | "(k, g) \<in> set (group_by key (filter (\<lambda>x. key x \<noteq> key r) rs))"
    by auto
  then show ?case
  proof cases
    case 1
    then show ?thesis by simp
  next
    case 2
    from "2.IH" [OF 2] have g: "g = filter (\<lambda>x. key x = k) (filter (\<lambda>x. key x \<noteq> key r) rs)"
      and k: "k \<in> key ` set (filter (\<lambda>x. key x \<noteq> key r) rs)" by simp_all
    from k have ne: "k \<noteq> key r" by auto
    have "filter (\<lambda>x. key x = k) (filter (\<lambda>x. key x \<noteq> key r) rs) = filter (\<lambda>x. key x = k) rs"
      using ne by (simp add: conj_commute) (metis (mono_tags, lifting) filter_cong)
    with g k ne show ?thesis by auto
  qed
qed



lemma non_null_replicate:
  "non_null (replicate k x) = (case x of None \<Rightarrow> [] | Some v \<Rightarrow> replicate k v)"
  by (induction k) (simp_all split: option.splits)



lemma average_scaled:
  assumes "0 < k"
  shows "(of_nat k * s) / of_nat (k * n) = (s :: rat) / of_nat n"
  using assms by simp








lemma sql_avg_cong: "non_null xs = non_null ys \<Longrightarrow> sql_avg xs = sql_avg ys"
  by (simp add: sql_avg_def)




lemma compare_join_companies:
  "((c, f), n) \<in> set (compare_join cutoff db) \<Longrightarrow> c \<in> set (companies_tbl db)"
  unfolding compare_join_def by (auto dest!: left_join_fst)









lemma digit_value_digit: "d < 10 \<Longrightarrow> digit_value (digit d) = d"
proof -
  assume "d < 10"
  then have "d \<in> set [0 ..< 10]" by simp
  then have "d \<in> {0, 1, 2, 3, 4, 5, 6, 7, 8, 9}"
    by (simp only: upt_conv_Cons upt_rec [of 9] list.set) (simp add: eval_nat_numeral upt_rec)
  then show ?thesis
    by (auto simp: digit_def digit_value_def)
qed

lemma decimal_value_digits: "decimal_value (digits n) = n"
proof (induction n rule: digits.induct)
  case (1 n)
  show ?case
  proof (cases "n < 10")
    case True
    then show ?thesis
      by (subst digits.simps) (simp add: decimal_value_def digit_value_digit)
  next
    case False
    with 1 have "decimal_value (digits (n div 10)) = n div 10" by simp
    with False show ?thesis
      by (subst digits.simps) (simp add: decimal_value_def digit_value_digit)
  qed
qed

section \<open>The industry analysis\<close>

lemma industry_join_industries:
  "((i, c), fm) \<in> set (industry_join db) \<Longrightarrow> i \<in> set (industries_tbl db)"
  unfolding industry_join_def by (auto dest!: left_join_fst)

lemma left_join_snd:
  "(x, Some y) \<in> set (left_join on xs ys) \<Longrightarrow> on x y \<and> y \<in> set ys"
proof -
  assume "(x, Some y) \<in> set (left_join on xs ys)"
  then have "Some y \<in> set (nullable (filter (on x) ys))"
    by (auto simp: left_join_def)
  then have "y \<in> set (filter (on x) ys)"
    by (cases "filter (on x) ys") (auto simp: nullable_def)
  then show ?thesis by simp
qed

lemma industry_join_company:
  assumes "((i, Some c), fm) \<in> set (industry_join db)"
  shows "c \<in> set (companies_tbl db) \<and> c_naics_code c = i_naics_code i"
proof -
  from assms have "(i, Some c) \<in> set (left_join (\<lambda>i c. i_naics_code i \<noteq> None \<and> i_naics_code i = c_naics_code c)
          (industries_tbl db) (companies_tbl db))"
    unfolding industry_join_def by (rule left_join_fst)
  from left_join_snd [OF this] show ?thesis by simp
qed

lemma industry_join_metric:
  assumes "((i, c), Some fm) \<in> set (industry_join db)"
  shows "c \<noteq> None"
  using left_join_snd [OF assms [unfolded industry_join_def]] by (auto split: option.splits)

lemma analysis_unknown_industry:
  assumes "reachable db" and "\<not> list_ex (\<lambda>i. i_naics_code i = Some code) (industries_tbl db)"
  shows "api_industry_analysis code db = \<lparr>status_code = 200, body = EmptyObject\<rparr>"
proof -
  have "filter (\<lambda>((i, c), fm). i_naics_code i = Some code) (industry_join db) = []"
    using assms(2) by (auto simp: filter_empty_conv list_ex_iff dest: industry_join_industries)
  then show ?thesis using assms(1)
    by (simp add: api_industry_analysis_def pool_query_def industry_analysis_query_def)
qed

lemma analysis_industry_without_companies:
  assumes "\<not> list_ex (\<lambda>c. c_naics_code c = Some code) (companies_tbl db)"
    and "api_industry_analysis code db = \<lparr>status_code = 200, body = AnalysisJson r\<rparr>"
  shows "company_count r = 0 \<and> avg_market_cap r = None \<and> avg_growth_rate r = None"
proof -
  let ?S = "filter (\<lambda>((i, c), fm). i_naics_code i = Some code) (industry_join db)"
  let ?key = "\<lambda>((i, c), fm). industry_title i"
  have none: "c = None \<and> fm = None" if "((i, c), fm) \<in> set ?S" for i c fm
  proof -
    from that have j: "((i, c), fm) \<in> set (industry_join db)" and i: "i_naics_code i = Some code"
      by simp_all
    have c: "c = None"
    proof (cases c)
      case None
      then show ?thesis .
    next
      case (Some c')
      with j industry_join_company [of i c' fm db] i assms(1) show ?thesis
        by (auto simp: list_ex_iff)
    qed
    moreover have "fm = None"
      using j c industry_join_metric [of i c _ db] by (cases fm) auto
    ultimately show ?thesis by simp
  qed
  from assms(2) obtain k g gs where g: "group_by ?key ?S = (k, g) # gs"
    and r: "r = \<lparr>a_industry_title = k,
                  company_count = sql_count (map (\<lambda>((i, c), fm). map_option c_id c) g),
                  avg_market_cap = sql_avg (map (\<lambda>((i, c), fm). Option.bind c market_cap) g),
                  avg_growth_rate = sql_avg (map (\<lambda>((i, c), fm). Option.bind fm metric_value) g)\<rparr>"
    by (auto simp: api_industry_analysis_def pool_query_def industry_analysis_query_def
        split: if_splits list.splits)
  have "(k, g) \<in> set (group_by ?key ?S)" by (simp add: g)
  from group_by_member [OF this] have "set g \<subseteq> set ?S" by auto
  then have all: "\<forall>x\<in>set g. fst (fst x) = fst (fst x) \<and> snd (fst x) = None \<and> snd x = None"
    using none by fastforce
  have 1: "map (\<lambda>((i, c), fm). map_option c_id c) g = replicate (length g) None"
    using all by (induction g) (auto simp: case_prod_unfold)
  have 2: "map (\<lambda>((i, c), fm). Option.bind c market_cap) g = replicate (length g) None"
    using all by (induction g) (auto simp: case_prod_unfold)
  have 3: "map (\<lambda>((i, c), fm). Option.bind fm metric_value) g = replicate (length g) None"
    using all by (induction g) (auto simp: case_prod_unfold)
  show ?thesis
    unfolding r by (simp add: 1 2 3 sql_count_def sql_avg_def average_def non_null_replicate)
qed

section \<open>Properties of the webhook endpoint\<close>

text \<open>
  C1. When the verification of the request fails, the endpoint answers HTTP 400 with the
  error text and leaves the database exactly as it was, whatever the payload is.
\<close>

theorem webhook_invalid_signature_400:
  assumes "constructEvent (req_body req) (stripe_signature req) secret = Inl msg"
  shows "fst (stripe_webhook constructEvent secret now req db) =
           \<lparr>status_code = 400, body = SendText (''Webhook Error: '' @ msg)\<rparr>
         \<and> snd (snd (stripe_webhook constructEvent secret now req db)) = db"
  using assms by (simp add: stripe_webhook_def)

theorem webhook_invalid_signature_400_witness:
  "fst (stripe_webhook (\<lambda>b s k. Inl ''bad signature'') (Some ''whsec'') 7
          \<lparr>req_body = ''{}'', stripe_signature = Some ''t=1,v1=00''\<rparr> db0) =
     \<lparr>status_code = 400, body = SendText ''Webhook Error: bad signature''\<rparr>
   \<and> snd (snd (stripe_webhook (\<lambda>b s k. Inl ''bad signature'') (Some ''whsec'') 7
          \<lparr>req_body = ''{}'', stripe_signature = Some ''t=1,v1=00''\<rparr> db0)) = db0"
  using webhook_invalid_signature_400
          [where constructEvent = "\<lambda>b s k. Inl ''bad signature''"
             and req = "\<lparr>req_body = ''{}'', stripe_signature = Some ''t=1,v1=00''\<rparr>"
             and secret = "Some ''whsec''" and msg = "''bad signature''" and now = 7 and db = db0]
  by simp



section \<open>Properties of the upsert\<close>




section \<open>Properties of the comparison insight generator\<close>








text \<open>
  C9. For a non-empty array in which the row sorted first by growth rate has no growth
  rate (\<open>null\<close> or \<open>undefined\<close>), the generator returns its three strings without an
  error; the second one names that row and prints \<open>undefined\<close> for the rate.
\<close>

theorem missing_growth_rate_no_error:
  assumes "companies \<noteq> []"
    and "missing (js_growth_rate (hd (array_sort by_growth_rate companies)))"
  shows "\<exists>s1 s3. generateComparisonInsights companies =
           Inr [s1, name (hd (array_sort by_growth_rate companies)) @
                      '' shows highest growth rate at undefined%'', s3]"
proof -
  have "optional_toFixed1 (js_growth_rate (hd (array_sort by_growth_rate companies))) = ''undefined''"
    using assms(2) by (cases "js_growth_rate (hd (array_sort by_growth_rate companies))") simp_all
  then show ?thesis by (simp add: generate_nonempty [OF assms(1)])
qed

theorem missing_growth_rate_no_error_witness:
  "\<exists>s1 s3. generateComparisonInsights [beta, alpha] =
      Inr [s1, ''Alpha shows highest growth rate at undefined%'', s3]"
proof -
  have ne: "[beta, alpha] \<noteq> []" by simp
  have h: "hd (array_sort by_growth_rate [beta, alpha]) = alpha"
    by (simp add: by_growth_rate_def js_sub_def alpha_def beta_def)
  have f: "missing (js_growth_rate (hd (array_sort by_growth_rate [beta, alpha])))"
    unfolding h by (simp add: alpha_def)
  from missing_growth_rate_no_error [OF ne f] show ?thesis
    unfolding h by (simp add: alpha_def)
qed

section \<open>Properties of the query endpoints\<close>

text \<open>
  C4. The company count of the analysis endpoint is \<open>COUNT(c.id)\<close> over the rows of the
  double join, so a company with several \<open>revenue_growth\<close> rows is counted once for each
  of them: for the industry \<open>5112\<close> with a single company that has two such rows the
  endpoint returns \<open>company_count = 2\<close>, while one company has that code. (An industry
  without companies gets the count 0 and null averages, and a code without industry the
  empty object: \<open>analysis_industry_without_companies\<close>, \<open>analysis_unknown_industry\<close>.)
\<close>

theorem industry_analysis_counts_join_rows:
  "api_industry_analysis ''5112'' db_software =
     \<lparr>status_code = 200,
      body = AnalysisJson \<lparr>a_industry_title = Some ''Software'', company_count = 2,
               avg_market_cap = Some 100, avg_growth_rate = Some 15\<rparr>\<rparr>
   \<and> length (filter (\<lambda>c. c_naics_code c = Some ''5112'') (companies_tbl db_software)) = 1"
  by code_simp



text \<open>
  C10. A request to \<open>/api/compare\<close> with at least two ids none of which is the id of a
  company is answered with HTTP 500: when the statement runs it returns no row, the
  generator throws on the empty array, and the \<open>catch\<close> branch answers; when the
  statement fails the same branch answers.
\<close>

theorem compare_unknown_ids_500:
  assumes "companyIds req = Some ids" and "2 \<le> length ids"
    and "\<forall>c\<in>set (companies_tbl db). c_id c \<notin> set ids"
  shows "api_compare row_object cutoff req db =
           \<lparr>status_code = 500, body = CompareError ''Failed to compare companies''\<rparr>
         \<and> (reachable db \<longrightarrow> \<not> list_ex (\<lambda>i. i < - (2 ^ 63) \<or> 2 ^ 63 \<le> i) ids \<longrightarrow>
               pool_query (compare_query cutoff ids) db = Inr [] \<and>
               generateComparisonInsights (map row_object []) = Inl TypeError)"
proof -
  have "filter (\<lambda>((c, fm), ns). c_id c \<in> set ids) (compare_join cutoff db) = []"
    using assms(3) by (auto simp: filter_empty_conv dest: compare_join_companies)
  then have q: "compare_query cutoff ids db = Inl SyntaxError \<or>
      compare_query cutoff ids db = Inl NumericValueOutOfRange \<or>
      compare_query cutoff ids db = Inr []"
    by (simp add: compare_query_def)
  have ne: "ids \<noteq> []" using assms(2) by auto
  have q': "\<not> list_ex (\<lambda>i. i < - (2 ^ 63) \<or> 2 ^ 63 \<le> i) ids \<Longrightarrow> compare_query cutoff ids db = Inr []"
    using \<open>filter _ _ = []\<close> ne by (simp add: compare_query_def)
  show ?thesis
    using assms(1,2) q q'
    by (auto simp: api_compare_def pool_query_def generate_empty)
qed

theorem compare_unknown_ids_500_witness:
  "api_compare numbers_row_object 70 \<lparr>companyIds = Some [7, 8]\<rparr> db_compare =
     \<lparr>status_code = 500, body = CompareError ''Failed to compare companies''\<rparr>
   \<and> pool_query (compare_query 70 [7, 8]) db_compare = Inr []"
proof -
  have a: "companyIds \<lparr>companyIds = Some [7, 8]\<rparr> = Some [7, 8]" by simp
  have b: "2 \<le> length [7, 8 :: int]" by simp
  have c: "\<forall>c\<in>set (companies_tbl db_compare). c_id c \<notin> set [7, 8]"
    by (simp add: db_compare_def db0_def)
  from compare_unknown_ids_500 [OF a b c, of numbers_row_object 70]
  show ?thesis by (simp add: db_compare_def db0_def)
qed


end
